theory Spec2Isabelle
  imports Main "HOL-Library.Multiset"
begin

section \<open>Data model\<close>

text \<open>
  The four tables of \<^verbatim>\<open>supabase/migrations/20251019000741_create_control_panel_schema.sql\<close>
  and their row types in \<^verbatim>\<open>src/lib/supabase.ts\<close>. A \<^verbatim>\<open>uuid\<close> is an opaque identifier (a
  natural number here), a \<^verbatim>\<open>timestamptz\<close> a point on an integer time line. The columns
  restricted by \<^verbatim>\<open>CHECK (... IN (...))\<close>, which TypeScript types as unions of string literals,
  are datatypes. A nullable column is an \<open>option\<close>. The column \<^verbatim>\<open>port\<close> is a PostgreSQL
  \<^verbatim>\<open>integer\<close>, 32 bits wide: the row holds an integer, and the statements that write it test
  the range (\<open>int4\<close> below).
\<close>

type_synonym uuid = nat
type_synonym timestamptz = int

datatype role = Admin | Member
datatype device_status = Online | Offline | Unknown
datatype command_type = Unmute_zoom | Next_track
datatype command_status = Pending | Delivered | Executed | Failed

record team =
  team_id :: uuid
  team_name :: string
  created_by :: uuid
  team_created_at :: timestamptz

record team_member =
  tm_id :: uuid
  tm_team_id :: uuid
  tm_user_id :: uuid
  tm_role :: role
  joined_at :: timestamptz

record device =
  dev_id :: uuid
  dev_name :: string
  ip_address :: string
  port :: int
  owner_id :: uuid
  dev_team_id :: "uuid option"
  dev_status :: device_status
  last_seen :: "timestamptz option"
  dev_created_at :: timestamptz

record command =
  cmd_id :: uuid
  device_id :: uuid
  command_type :: command_type
  payload :: "(string \<times> string) list"
  cmd_status :: command_status
  sent_by :: uuid
  sent_at :: timestamptz
  executed_at :: "timestamptz option"

text \<open>A table is the list of its rows, in insertion order.\<close>

record database =
  teams :: "team list"
  team_members :: "team_member list"
  devices :: "device list"
  commands :: "command list"

definition empty_db :: database where
  "empty_db = \<lparr>teams = [], team_members = [], devices = [], commands = []\<rparr>"

datatype relation = Teams | Team_members | Devices | Commands

datatype sql_command = SELECT | INSERT | UPDATE | DELETE

text \<open>
  What a request to the store can fail with, by PostgreSQL's error:
  \<open>InfiniteRecursion\<close> is 42P17, ``infinite recursion detected in policy for relation'';
  \<open>RlsViolation\<close> is 42501, ``new row violates row-level security policy'';
  \<open>NumericValueOutOfRange\<close> is 22003, a number that does not fit the type of its column;
  \<open>CheckViolation\<close>, \<open>NotNullViolation\<close>, \<open>UniqueViolation\<close> and \<open>ForeignKeyViolation\<close> are
  the constraint errors. \<open>ConstraintValidation\<close> is the browser refusing to submit a form
  whose fields violate their \<^verbatim>\<open>required\<close>, \<^verbatim>\<open>min\<close> or \<^verbatim>\<open>max\<close> attributes.
\<close>

datatype form_field = Name_field | Ip_address_field | Port_field

datatype error =
    InfiniteRecursion relation
  | RlsViolation string
  | NumericValueOutOfRange string
  | CheckViolation string
  | NotNullViolation string
  | UniqueViolation string
  | ForeignKeyViolation string
  | ConstraintValidation "form_field list"

text \<open>
  Who sends a request: a signed-in user (role \<^verbatim>\<open>authenticated\<close>, \<^verbatim>\<open>auth.uid()\<close> is the user),
  a client that is not signed in (role \<^verbatim>\<open>anon\<close>), or the desktop client with the service-role
  key, which bypasses row-level security. Every policy of the migration is
  \<^verbatim>\<open>TO authenticated\<close>, and row-level security is enabled on the four tables, so \<^verbatim>\<open>anon\<close> is
  granted nothing.
\<close>

datatype actor = Authenticated uuid | Anon | ServiceRole

fun rls :: "actor \<Rightarrow> (uuid \<Rightarrow> bool) \<Rightarrow> bool" where
  "rls ServiceRole p = True"
| "rls Anon p = False"
| "rls (Authenticated uid) p = p uid"

text \<open>The state of the store after a request: a failed statement changes nothing.\<close>

definition outcome :: "database \<Rightarrow> error + database \<Rightarrow> database" where
  "outcome db r = (case r of Inl e \<Rightarrow> db | Inr db' \<Rightarrow> db')"

section \<open>Row-level security policies\<close>

text \<open>
  One predicate per \<^verbatim>\<open>CREATE POLICY\<close>, named after the policy, over the acting user
  \<open>uid\<close> (\<^verbatim>\<open>auth.uid()\<close>) and the row. A subquery inside a policy reads the tables of the
  store. The permissive policies of one table and one command are combined with \<open>\<or>\<close>.

  A \<^verbatim>\<open>WITH CHECK\<close> expression that is false for a new row raises an error; a \<^verbatim>\<open>USING\<close>
  expression that is false for an existing row hides the row from the command, which then
  does not touch it and raises nothing. An \<^verbatim>\<open>UPDATE\<close> or \<^verbatim>\<open>DELETE\<close> whose \<^verbatim>\<open>WHERE\<close> clause reads a
  column (all of them here: \<^verbatim>\<open>.eq('id', ...)\<close>) sees a row only if a \<^verbatim>\<open>SELECT\<close> policy admits it
  too, and the \<^verbatim>\<open>SELECT\<close> policies must then admit the new row of an \<^verbatim>\<open>UPDATE\<close> as well; so
  must they admit a row inserted by a request that asks for it back (\<^verbatim>\<open>.select()\<close>).
\<close>

definition is_team_member :: "database \<Rightarrow> uuid \<Rightarrow> uuid \<Rightarrow> bool" where
  "is_team_member db uid tid =
     (\<exists>m \<in> set (team_members db). tm_team_id m = tid \<and> tm_user_id m = uid)"

definition is_team_creator :: "database \<Rightarrow> uuid \<Rightarrow> uuid \<Rightarrow> bool" where
  "is_team_creator db uid tid =
     (\<exists>t \<in> set (teams db). team_id t = tid \<and> created_by t = uid)"

definition teams_select :: "database \<Rightarrow> uuid \<Rightarrow> team \<Rightarrow> bool" where
  "teams_select db uid t = (created_by t = uid \<or> is_team_member db uid (team_id t))"

definition teams_insert_check :: "uuid \<Rightarrow> team \<Rightarrow> bool" where
  "teams_insert_check uid t = (created_by t = uid)"

definition teams_delete_using :: "uuid \<Rightarrow> team \<Rightarrow> bool" where
  "teams_delete_using uid t = (created_by t = uid)"

text \<open>
  ``Users can view team memberships of their teams'' asks, inside its own \<^verbatim>\<open>USING\<close>, for a
  row of \<^verbatim>\<open>team_members\<close>. The predicate is the expression as the migration writes it;
  PostgreSQL never gets to evaluate it for a signed-in user, because adding this policy to
  a statement already fails (\<open>policy_recursion\<close> below).
\<close>

definition team_members_select :: "database \<Rightarrow> uuid \<Rightarrow> team_member \<Rightarrow> bool" where
  "team_members_select db uid m =
     (tm_user_id m = uid \<or> is_team_member db uid (tm_team_id m))"

definition team_members_insert_check :: "database \<Rightarrow> uuid \<Rightarrow> team_member \<Rightarrow> bool" where
  "team_members_insert_check db uid m = is_team_creator db uid (tm_team_id m)"

definition team_members_delete_using :: "database \<Rightarrow> uuid \<Rightarrow> team_member \<Rightarrow> bool" where
  "team_members_delete_using db uid m =
     (is_team_creator db uid (tm_team_id m) \<or> tm_user_id m = uid)"

definition devices_select_own :: "uuid \<Rightarrow> device \<Rightarrow> bool" where
  "devices_select_own uid d = (owner_id d = uid)"

definition devices_select_team :: "database \<Rightarrow> uuid \<Rightarrow> device \<Rightarrow> bool" where
  "devices_select_team db uid d =
     (case dev_team_id d of None \<Rightarrow> False | Some tid \<Rightarrow> is_team_member db uid tid)"

definition devices_select :: "database \<Rightarrow> uuid \<Rightarrow> device \<Rightarrow> bool" where
  "devices_select db uid d = (devices_select_own uid d \<or> devices_select_team db uid d)"

definition devices_insert_check :: "uuid \<Rightarrow> device \<Rightarrow> bool" where
  "devices_insert_check uid d = (owner_id d = uid)"

definition devices_update_owner :: "uuid \<Rightarrow> device \<Rightarrow> bool" where
  "devices_update_owner uid d = (owner_id d = uid)"

text \<open>
  ``Team admins can update team devices'' compares \<^verbatim>\<open>teams.created_by\<close> with the user; no
  policy of the migration reads \<^verbatim>\<open>team_members.role\<close>.
\<close>

definition devices_update_team_admin :: "database \<Rightarrow> uuid \<Rightarrow> device \<Rightarrow> bool" where
  "devices_update_team_admin db uid d =
     (case dev_team_id d of None \<Rightarrow> False | Some tid \<Rightarrow> is_team_creator db uid tid)"

text \<open>
  Both update policies have the same expression under \<^verbatim>\<open>USING\<close> and under \<^verbatim>\<open>WITH CHECK\<close>,
  so one predicate serves for the old and for the new row.
\<close>

definition devices_update_policy :: "database \<Rightarrow> uuid \<Rightarrow> device \<Rightarrow> bool" where
  "devices_update_policy db uid d =
     (devices_update_owner uid d \<or> devices_update_team_admin db uid d)"

definition devices_delete_using :: "uuid \<Rightarrow> device \<Rightarrow> bool" where
  "devices_delete_using uid d = (owner_id d = uid)"

definition commands_select :: "database \<Rightarrow> uuid \<Rightarrow> command \<Rightarrow> bool" where
  "commands_select db uid c =
     ((\<exists>d \<in> set (devices db). dev_id d = device_id c \<and> owner_id d = uid) \<or>
      (\<exists>d \<in> set (devices db). \<exists>m \<in> set (team_members db).
          dev_team_id d = Some (tm_team_id m) \<and> dev_id d = device_id c \<and> tm_user_id m = uid))"

definition commands_insert_own :: "database \<Rightarrow> uuid \<Rightarrow> command \<Rightarrow> bool" where
  "commands_insert_own db uid c =
     (sent_by c = uid \<and>
      (\<exists>d \<in> set (devices db). dev_id d = device_id c \<and> owner_id d = uid))"

definition commands_insert_team :: "database \<Rightarrow> uuid \<Rightarrow> command \<Rightarrow> bool" where
  "commands_insert_team db uid c =
     (sent_by c = uid \<and>
      (\<exists>d \<in> set (devices db). \<exists>m \<in> set (team_members db).
          dev_team_id d = Some (tm_team_id m) \<and> dev_id d = device_id c \<and> tm_user_id m = uid))"

definition commands_insert_check :: "database \<Rightarrow> uuid \<Rightarrow> command \<Rightarrow> bool" where
  "commands_insert_check db uid c = (commands_insert_own db uid c \<or> commands_insert_team db uid c)"

text \<open>``System can update command status'': \<^verbatim>\<open>USING (true) WITH CHECK (true)\<close>.\<close>

definition commands_update_using :: "uuid \<Rightarrow> command \<Rightarrow> bool" where
  "commands_update_using uid c = True"

definition commands_update_check :: "uuid \<Rightarrow> command \<Rightarrow> bool" where
  "commands_update_check uid c = True"

section \<open>Policies that read tables\<close>

text \<open>
  Before it runs a statement of a role that is subject to row-level security, PostgreSQL
  adds the policies of the statement's table to the statement, and to every subquery inside
  a policy the \<^verbatim>\<open>SELECT\<close> policies of the table that the subquery reads, and so on. A table met
  again while its own policies are being added raises ``infinite recursion detected in
  policy for relation'', whatever the rows are: the statement does not run.

  \<open>select_policy_reads r\<close> lists the tables read by the subqueries of the \<^verbatim>\<open>SELECT\<close> policies
  of \<open>r\<close>, and \<open>write_policy_reads r c\<close> those read by the policies of \<open>r\<close> for the command
  \<open>c\<close>, in the order of the migration. The \<^verbatim>\<open>SELECT\<close> policy of \<^verbatim>\<open>team_members\<close>, ``Users can
  view team memberships of their teams'', reads \<^verbatim>\<open>team_members\<close> itself.
\<close>

fun select_policy_reads :: "relation \<Rightarrow> relation list" where
  "select_policy_reads Teams = [Team_members]"
| "select_policy_reads Team_members = [Team_members]"
| "select_policy_reads Devices = [Team_members]"
| "select_policy_reads Commands = [Devices, Devices, Team_members]"

fun write_policy_reads :: "relation \<Rightarrow> sql_command \<Rightarrow> relation list" where
  "write_policy_reads Team_members INSERT = [Teams]"
| "write_policy_reads Team_members DELETE = [Teams]"
| "write_policy_reads Devices UPDATE = [Teams, Teams]"
| "write_policy_reads Commands INSERT = [Devices, Devices, Team_members]"
| "write_policy_reads r c = []"

fun first_error :: "'a option list \<Rightarrow> 'a option" where
  "first_error [] = None"
| "first_error (Some e # rs) = Some e"
| "first_error (None # rs) = first_error rs"

definition all_relations :: "relation list" where
  "all_relations = [Teams, Team_members, Devices, Commands]"

text \<open>
  \<open>policy_recursion active r\<close> adds the \<^verbatim>\<open>SELECT\<close> policies of \<open>r\<close>, read by a subquery, while the
  policies of the tables \<open>active\<close> are being added; the result is the table for which the
  recursion is detected, if any.
\<close>

function policy_recursion :: "relation list \<Rightarrow> relation \<Rightarrow> relation option" where
  "policy_recursion active r =
     (if r \<in> set active then Some r
      else first_error (map (policy_recursion (r # active)) (select_policy_reads r)))"
  by pat_completeness auto
termination
proof (relation "measure (\<lambda>(active, r). length (filter (\<lambda>x. x \<notin> set active) all_relations))")
  show "wf (measure (\<lambda>(active, r). length (filter (\<lambda>x. x \<notin> set active) all_relations)))"
    by simp
next
  fix active :: "relation list" and r x :: relation
  assume r: "r \<notin> set active"
  let ?rest = "filter (\<lambda>x. x \<notin> set active) all_relations"
  have "r \<in> set all_relations" by (cases r) (simp_all add: all_relations_def)
  with r have "r \<in> set ?rest" by simp
  then have "length (filter (\<lambda>x. x \<noteq> r) ?rest) < length ?rest"
    by (intro length_filter_less[of r]) simp_all
  moreover have "filter (\<lambda>x. x \<notin> set (r # active)) all_relations = filter (\<lambda>x. x \<noteq> r) ?rest"
    by (simp add: conj_commute)
  ultimately show "((r # active, x), (active, r))
      \<in> measure (\<lambda>(active, r). length (filter (\<lambda>x. x \<notin> set active) all_relations))"
    by simp
qed

declare policy_recursion.simps [simp del]

text \<open>
  The error, if any, that the policies raise before a statement of actor \<open>a\<close> with command
  \<open>c\<close> on table \<open>r\<close> runs. \<open>reads_rows\<close> says whether the statement reads rows of \<open>r\<close> (a
  \<^verbatim>\<open>WHERE\<close> clause, or \<^verbatim>\<open>.select()\<close> after an insert), which brings in the \<^verbatim>\<open>SELECT\<close> policies
  of \<open>r\<close>. No policy applies to the service role (it bypasses row-level security) nor to
  \<^verbatim>\<open>anon\<close> (no policy names it), so none is added for them.
\<close>

definition policy_error :: "actor \<Rightarrow> relation \<Rightarrow> sql_command \<Rightarrow> bool \<Rightarrow> error option" where
  "policy_error a r c reads_rows =
     (case a of
        Authenticated uid \<Rightarrow>
          map_option InfiniteRecursion
            (first_error
               (map (policy_recursion [r])
                  (write_policy_reads r c @ (if reads_rows then select_policy_reads r else []))))
      | Anon \<Rightarrow> None
      | ServiceRole \<Rightarrow> None)"

section \<open>Statements on the store\<close>

text \<open>
  Each statement that the clients send, with the checks the store makes in PostgreSQL's
  order: the policies are added to the statement (\<open>policy_error\<close>); the values are
  converted to the types of their columns; then, row by row, row-level security, \<^verbatim>\<open>NOT NULL\<close>
  and \<^verbatim>\<open>CHECK\<close> constraints, primary key and unique constraints, and foreign keys.
  Referential actions (\<^verbatim>\<open>ON DELETE CASCADE\<close>, \<^verbatim>\<open>ON DELETE SET NULL\<close>) are not subject to
  row-level security. The table \<^verbatim>\<open>auth.users\<close> belongs to the authentication service and is not
  part of this store: every user id is taken to reference a user.
\<close>

text \<open>The insert of \<^verbatim>\<open>CreateTeamModal\<close>, which asks for the new row back (\<^verbatim>\<open>.select()\<close>).\<close>

definition insert_team :: "actor \<Rightarrow> database \<Rightarrow> team \<Rightarrow> error + database" where
  "insert_team a db t =
     (case policy_error a Teams INSERT True of
        Some e \<Rightarrow> Inl e
      | None \<Rightarrow>
          if \<not> rls a (\<lambda>uid. teams_insert_check uid t \<and> teams_select db uid t)
            then Inl (RlsViolation ''teams'')
          else if team_id t \<in> set (map team_id (teams db))
            then Inl (UniqueViolation ''teams_pkey'')
          else Inr (db\<lparr>teams := teams db @ [t]\<rparr>))"

definition insert_team_member :: "actor \<Rightarrow> database \<Rightarrow> team_member \<Rightarrow> error + database" where
  "insert_team_member a db m =
     (case policy_error a Team_members INSERT False of
        Some e \<Rightarrow> Inl e
      | None \<Rightarrow>
          if \<not> rls a (\<lambda>uid. team_members_insert_check db uid m)
            then Inl (RlsViolation ''team_members'')
          else if tm_id m \<in> set (map tm_id (team_members db))
            then Inl (UniqueViolation ''team_members_pkey'')
          else if (tm_team_id m, tm_user_id m) \<in>
                    set (map (\<lambda>x. (tm_team_id x, tm_user_id x)) (team_members db))
            then Inl (UniqueViolation ''team_members_team_id_user_id_key'')
          else if tm_team_id m \<notin> set (map team_id (teams db))
            then Inl (ForeignKeyViolation ''team_members_team_id_fkey'')
          else Inr (db\<lparr>team_members := team_members db @ [m]\<rparr>))"

definition team_member_delete_target :: "actor \<Rightarrow> database \<Rightarrow> uuid \<Rightarrow> team_member \<Rightarrow> bool" where
  "team_member_delete_target a db mid m =
     (tm_id m = mid \<and>
      rls a (\<lambda>uid. team_members_select db uid m \<and> team_members_delete_using db uid m))"

definition delete_team_member :: "actor \<Rightarrow> database \<Rightarrow> uuid \<Rightarrow> error + database" where
  "delete_team_member a db mid =
     (case policy_error a Team_members DELETE True of
        Some e \<Rightarrow> Inl e
      | None \<Rightarrow>
          Inr (db\<lparr>team_members :=
                 filter (\<lambda>m. \<not> team_member_delete_target a db mid m) (team_members db)\<rparr>))"

definition team_delete_target :: "actor \<Rightarrow> database \<Rightarrow> uuid \<Rightarrow> team \<Rightarrow> bool" where
  "team_delete_target a db tid t =
     (team_id t = tid \<and> rls a (\<lambda>uid. teams_select db uid t \<and> teams_delete_using uid t))"

text \<open>
  Deleting a team deletes its memberships (\<^verbatim>\<open>team_members.team_id ... ON DELETE CASCADE\<close>)
  and clears the reference of its devices (\<^verbatim>\<open>devices.team_id ... ON DELETE SET NULL\<close>).
\<close>

definition delete_team :: "actor \<Rightarrow> database \<Rightarrow> uuid \<Rightarrow> error + database" where
  "delete_team a db tid =
     (case policy_error a Teams DELETE True of
        Some e \<Rightarrow> Inl e
      | None \<Rightarrow>
          if \<exists>t \<in> set (teams db). team_delete_target a db tid t
          then Inr (db\<lparr>teams := filter (\<lambda>t. \<not> team_delete_target a db tid t) (teams db),
                       team_members := filter (\<lambda>m. tm_team_id m \<noteq> tid) (team_members db),
                       devices := map (\<lambda>d. if dev_team_id d = Some tid
                                            then d\<lparr>dev_team_id := None\<rparr> else d) (devices db)\<rparr>)
          else Inr db)"

text \<open>
  \<^verbatim>\<open>port integer NOT NULL CHECK (port > 0 AND port <= 65535)\<close>: a number outside the 32 bits
  of \<^verbatim>\<open>integer\<close> is refused when it is converted, before the constraint is looked at.
\<close>

definition int4 :: "int \<Rightarrow> bool" where
  "int4 n = (- 2147483648 \<le> n \<and> n \<le> 2147483647)"

definition devices_port_check :: "device \<Rightarrow> bool" where
  "devices_port_check d = (port d > 0 \<and> port d \<le> 65535)"

text \<open>The insert of \<^verbatim>\<open>AddDeviceModal\<close>, which does not ask for the new row back.\<close>

definition insert_device :: "actor \<Rightarrow> database \<Rightarrow> device \<Rightarrow> error + database" where
  "insert_device a db d =
     (case policy_error a Devices INSERT False of
        Some e \<Rightarrow> Inl e
      | None \<Rightarrow>
          if \<not> int4 (port d) then Inl (NumericValueOutOfRange ''integer'')
          else if \<not> rls a (\<lambda>uid. devices_insert_check uid d) then Inl (RlsViolation ''devices'')
          else if \<not> devices_port_check d then Inl (CheckViolation ''devices_port_check'')
          else if dev_id d \<in> set (map dev_id (devices db))
            then Inl (UniqueViolation ''devices_pkey'')
          else if (case dev_team_id d of None \<Rightarrow> False
                   | Some tid \<Rightarrow> tid \<notin> set (map team_id (teams db)))
            then Inl (ForeignKeyViolation ''devices_team_id_fkey'')
          else Inr (db\<lparr>devices := devices db @ [d]\<rparr>))"

definition device_update_target :: "actor \<Rightarrow> database \<Rightarrow> uuid \<Rightarrow> device \<Rightarrow> bool" where
  "device_update_target a db did d =
     (dev_id d = did \<and> rls a (\<lambda>uid. devices_select db uid d \<and> devices_update_policy db uid d))"

text \<open>
  \<^verbatim>\<open>UPDATE devices SET ... WHERE id = did\<close>, the assignments given as the function \<open>f\<close> on
  the row. The statements of the clients assign \<^verbatim>\<open>name\<close>, \<^verbatim>\<open>ip_address\<close>, \<^verbatim>\<open>port\<close>, \<^verbatim>\<open>status\<close>
  and \<^verbatim>\<open>last_seen\<close> only, so no key constraint is checked again.
\<close>

definition update_device :: "actor \<Rightarrow> database \<Rightarrow> uuid \<Rightarrow> (device \<Rightarrow> device) \<Rightarrow> error + database" where
  "update_device a db did f =
     (case policy_error a Devices UPDATE True of
        Some e \<Rightarrow> Inl e
      | None \<Rightarrow>
          if \<exists>d \<in> set (devices db). device_update_target a db did d \<and> \<not> int4 (port (f d))
            then Inl (NumericValueOutOfRange ''integer'')
          else if \<exists>d \<in> set (devices db). device_update_target a db did d \<and>
                                     \<not> rls a (\<lambda>uid. devices_select db uid (f d) \<and>
                                                     devices_update_policy db uid (f d))
            then Inl (RlsViolation ''devices'')
          else if \<exists>d \<in> set (devices db). device_update_target a db did d \<and>
                                          \<not> devices_port_check (f d)
            then Inl (CheckViolation ''devices_port_check'')
          else Inr (db\<lparr>devices :=
                       map (\<lambda>d. if device_update_target a db did d then f d else d)
                           (devices db)\<rparr>))"

definition device_delete_target :: "actor \<Rightarrow> database \<Rightarrow> uuid \<Rightarrow> device \<Rightarrow> bool" where
  "device_delete_target a db did d =
     (dev_id d = did \<and> rls a (\<lambda>uid. devices_select db uid d \<and> devices_delete_using uid d))"

text \<open>
  Deleting a device deletes the commands that reference it
  (\<^verbatim>\<open>commands.device_id ... ON DELETE CASCADE\<close>).
\<close>

definition delete_device :: "actor \<Rightarrow> database \<Rightarrow> uuid \<Rightarrow> error + database" where
  "delete_device a db did =
     (case policy_error a Devices DELETE True of
        Some e \<Rightarrow> Inl e
      | None \<Rightarrow>
          if \<exists>d \<in> set (devices db). device_delete_target a db did d
          then Inr (db\<lparr>devices := filter (\<lambda>d. \<not> device_delete_target a db did d) (devices db),
                       commands := filter (\<lambda>c. device_id c \<noteq> did) (commands db)\<rparr>)
          else Inr db)"

text \<open>The insert of \<^verbatim>\<open>sendCommand\<close>, which does not ask for the new row back.\<close>

definition insert_command :: "actor \<Rightarrow> database \<Rightarrow> command \<Rightarrow> error + database" where
  "insert_command a db c =
     (case policy_error a Commands INSERT False of
        Some e \<Rightarrow> Inl e
      | None \<Rightarrow>
          if \<not> rls a (\<lambda>uid. commands_insert_check db uid c) then Inl (RlsViolation ''commands'')
          else if cmd_id c \<in> set (map cmd_id (commands db))
            then Inl (UniqueViolation ''commands_pkey'')
          else if device_id c \<notin> set (map dev_id (devices db))
            then Inl (ForeignKeyViolation ''commands_device_id_fkey'')
          else Inr (db\<lparr>commands := commands db @ [c]\<rparr>))"

definition command_update_target :: "actor \<Rightarrow> database \<Rightarrow> uuid \<Rightarrow> command \<Rightarrow> bool" where
  "command_update_target a db cid c =
     (cmd_id c = cid \<and> rls a (\<lambda>uid. commands_select db uid c \<and> commands_update_using uid c))"

text \<open>
  \<^verbatim>\<open>UPDATE commands SET status = ? [, executed_at = ?] WHERE id = ?\<close>: the only update of a
  command that the clients send. The new status is one of the four values by its type, so
  the \<^verbatim>\<open>CHECK\<close> on \<^verbatim>\<open>status\<close> holds; nothing compares the new status with the old one.
\<close>

definition set_status :: "command_status \<Rightarrow> timestamptz option \<Rightarrow> command \<Rightarrow> command" where
  "set_status s ex c =
     (case ex of None \<Rightarrow> c\<lparr>cmd_status := s\<rparr>
      | Some t \<Rightarrow> c\<lparr>cmd_status := s, executed_at := Some t\<rparr>)"

definition update_command_status ::
  "actor \<Rightarrow> database \<Rightarrow> uuid \<Rightarrow> command_status \<Rightarrow> timestamptz option \<Rightarrow> error + database" where
  "update_command_status a db cid s ex =
     (case policy_error a Commands UPDATE True of
        Some e \<Rightarrow> Inl e
      | None \<Rightarrow>
          if \<exists>c \<in> set (commands db). command_update_target a db cid c \<and>
                                      \<not> rls a (\<lambda>uid. commands_select db uid (set_status s ex c) \<and>
                                                      commands_update_check uid (set_status s ex c))
            then Inl (RlsViolation ''commands'')
          else Inr (db\<lparr>commands :=
                       map (\<lambda>c. if command_update_target a db cid c then set_status s ex c else c)
                           (commands db)\<rparr>))"

section \<open>The dashboard\<close>

text \<open>
  The functions of the components \<^verbatim>\<open>Dashboard\<close>, \<^verbatim>\<open>AddDeviceModal\<close>, \<^verbatim>\<open>EditDeviceModal\<close>,
  \<^verbatim>\<open>Teams\<close>, \<^verbatim>\<open>CreateTeamModal\<close> and \<^verbatim>\<open>ManageTeamModal\<close> that write to the store. \<open>user\<close>
  is the signed-in user of \<^verbatim>\<open>useAuth()\<close>, if any; the request carries the user's session.
  The values that the store or the browser supplies are arguments: \<open>new_id\<close> stands for
  \<^verbatim>\<open>gen_random_uuid()\<close>, \<open>now\<close> for \<^verbatim>\<open>now()\<close>, \<open>confirmed\<close> for the answer to \<^verbatim>\<open>confirm(...)\<close>.
  The columns that a request leaves out take the defaults of the migration.
\<close>

definition session :: "uuid option \<Rightarrow> actor" where
  "session user = (case user of None \<Rightarrow> Anon | Some uid \<Rightarrow> Authenticated uid)"

text \<open>
  The row that \<^verbatim>\<open>sendCommand\<close> inserts: \<^verbatim>\<open>device_id\<close>, \<^verbatim>\<open>command_type\<close>, an empty \<^verbatim>\<open>payload\<close>,
  \<^verbatim>\<open>status: 'pending'\<close> and \<^verbatim>\<open>sent_by\<close> as the request gives them, the other columns by their
  defaults.
\<close>

definition sendCommand_row ::
  "uuid \<Rightarrow> uuid \<Rightarrow> command_type \<Rightarrow> uuid \<Rightarrow> timestamptz \<Rightarrow> command" where
  "sendCommand_row uid deviceId commandType new_id now =
     \<lparr>cmd_id = new_id, device_id = deviceId, command_type = commandType, payload = [],
      cmd_status = Pending, sent_by = uid, sent_at = now, executed_at = None\<rparr>"

definition sendCommand ::
  "uuid option \<Rightarrow> database \<Rightarrow> uuid \<Rightarrow> command_type \<Rightarrow> uuid \<Rightarrow> timestamptz \<Rightarrow> error + database" where
  "sendCommand user db deviceId commandType new_id now =
     (case user of None \<Rightarrow> Inr db
      | Some uid \<Rightarrow>
          insert_command (Authenticated uid) db
            (sendCommand_row uid deviceId commandType new_id now))"

definition deleteDevice :: "uuid option \<Rightarrow> database \<Rightarrow> bool \<Rightarrow> uuid \<Rightarrow> error + database" where
  "deleteDevice user db confirmed deviceId =
     (if \<not> confirmed then Inr db else delete_device (session user) db deviceId)"

text \<open>
  The port field of the two device forms is \<^verbatim>\<open>type="number"\<close> and its state is the text of
  the field. The code reads the text in two ways, which differ on texts such as \<^verbatim>\<open>0.5e1\<close>
  (the number 5, but \<^verbatim>\<open>parseInt\<close> gives 0) and \<^verbatim>\<open>1e3\<close> (the number 1000, but \<^verbatim>\<open>parseInt\<close> gives
  1): the browser validates the number that the text denotes, \<open>valueAsNumber\<close>, and
  \<^verbatim>\<open>handleSubmit\<close> sends \<^verbatim>\<open>parseInt(port)\<close>, where \<^verbatim>\<open>NaN\<close> (\<open>None\<close>) goes out as \<^verbatim>\<open>null\<close>. A text
  is represented by these two readings.
\<close>

datatype number_value = No_number | Not_integer | Integer int

record port_text =
  valueAsNumber :: number_value
  parseInt :: "int option"

definition AddDeviceModal_handleSubmit ::
  "uuid option \<Rightarrow> database \<Rightarrow> string \<Rightarrow> string \<Rightarrow> port_text \<Rightarrow> uuid \<Rightarrow> timestamptz
     \<Rightarrow> error + database" where
  "AddDeviceModal_handleSubmit user db name ipAddress port_input new_id now =
     (case user of None \<Rightarrow> Inr db
      | Some uid \<Rightarrow>
          (case parseInt port_input of None \<Rightarrow> Inl (NotNullViolation ''port'')
           | Some p \<Rightarrow>
               insert_device (Authenticated uid) db
                 \<lparr>dev_id = new_id, dev_name = name, ip_address = ipAddress, port = p,
                  owner_id = uid, dev_team_id = None, dev_status = Unknown, last_seen = None,
                  dev_created_at = now\<rparr>))"

definition EditDeviceModal_handleSubmit ::
  "uuid option \<Rightarrow> database \<Rightarrow> device \<Rightarrow> string \<Rightarrow> string \<Rightarrow> port_text \<Rightarrow> error + database" where
  "EditDeviceModal_handleSubmit user db device name ipAddress port_input =
     (case parseInt port_input of
        None \<Rightarrow>
          (case policy_error (session user) Devices UPDATE True of
             Some e \<Rightarrow> Inl e
           | None \<Rightarrow>
               if \<exists>d \<in> set (devices db). device_update_target (session user) db (dev_id device) d
               then Inl (NotNullViolation ''port'') else Inr db)
      | Some p \<Rightarrow>
          update_device (session user) db (dev_id device)
            (\<lambda>d. d\<lparr>dev_name := name, ip_address := ipAddress, port := p\<rparr>))"

text \<open>
  The inputs of both forms are \<^verbatim>\<open>required\<close>, and the port input has \<^verbatim>\<open>min="1"\<close> and
  \<^verbatim>\<open>max="65535"\<close> and no \<^verbatim>\<open>step\<close>, so that its number must be whole: the browser calls
  \<^verbatim>\<open>onSubmit\<close> only when no field is invalid.
\<close>

definition invalid_fields :: "string \<Rightarrow> string \<Rightarrow> port_text \<Rightarrow> form_field list" where
  "invalid_fields name ipAddress port_input =
     (if name = [] then [Name_field] else []) @
     (if ipAddress = [] then [Ip_address_field] else []) @
     (case valueAsNumber port_input of
        Integer n \<Rightarrow> if 1 \<le> n \<and> n \<le> 65535 then [] else [Port_field]
      | Not_integer \<Rightarrow> [Port_field]
      | No_number \<Rightarrow> [Port_field])"

definition AddDeviceModal_submit ::
  "uuid option \<Rightarrow> database \<Rightarrow> string \<Rightarrow> string \<Rightarrow> port_text \<Rightarrow> uuid \<Rightarrow> timestamptz
     \<Rightarrow> error + database" where
  "AddDeviceModal_submit user db name ipAddress port_input new_id now =
     (if invalid_fields name ipAddress port_input \<noteq> []
      then Inl (ConstraintValidation (invalid_fields name ipAddress port_input))
      else AddDeviceModal_handleSubmit user db name ipAddress port_input new_id now)"

definition EditDeviceModal_submit ::
  "uuid option \<Rightarrow> database \<Rightarrow> device \<Rightarrow> string \<Rightarrow> string \<Rightarrow> port_text \<Rightarrow> error + database" where
  "EditDeviceModal_submit user db device name ipAddress port_input =
     (if invalid_fields name ipAddress port_input \<noteq> []
      then Inl (ConstraintValidation (invalid_fields name ipAddress port_input))
      else EditDeviceModal_handleSubmit user db device name ipAddress port_input)"

definition deleteTeam :: "uuid option \<Rightarrow> database \<Rightarrow> bool \<Rightarrow> uuid \<Rightarrow> error + database" where
  "deleteTeam user db confirmed teamId =
     (if \<not> confirmed then Inr db else delete_team (session user) db teamId)"

text \<open>
  \<^verbatim>\<open>CreateTeamModal.handleSubmit\<close> inserts the team and then the creator's membership with
  role \<^verbatim>\<open>admin\<close>; the result of the second insert is not looked at.
\<close>

definition CreateTeamModal_handleSubmit ::
  "uuid option \<Rightarrow> database \<Rightarrow> string \<Rightarrow> uuid \<Rightarrow> uuid \<Rightarrow> timestamptz \<Rightarrow> error + database" where
  "CreateTeamModal_handleSubmit user db name new_team_id new_member_id now =
     (case user of None \<Rightarrow> Inr db
      | Some uid \<Rightarrow>
          (case insert_team (Authenticated uid) db
                  \<lparr>team_id = new_team_id, team_name = name, created_by = uid,
                   team_created_at = now\<rparr> of
             Inl e \<Rightarrow> Inl e
           | Inr db1 \<Rightarrow>
               Inr (outcome db1
                      (insert_team_member (Authenticated uid) db1
                         \<lparr>tm_id = new_member_id, tm_team_id = new_team_id, tm_user_id = uid,
                          tm_role = Admin, joined_at = now\<rparr>))))"

text \<open>
  \<^verbatim>\<open>addMember\<close> looks the new member up by e-mail in \<^verbatim>\<open>auth.users\<close>; \<open>userData\<close> is what the
  lookup gives, \<open>None\<close> when it fails or finds nobody.
\<close>

definition addMember ::
  "uuid option \<Rightarrow> database \<Rightarrow> team \<Rightarrow> uuid option \<Rightarrow> uuid \<Rightarrow> timestamptz \<Rightarrow> error + database" where
  "addMember user db team userData new_id now =
     (case userData of None \<Rightarrow> Inr db
      | Some member_uid \<Rightarrow>
          insert_team_member (session user) db
            \<lparr>tm_id = new_id, tm_team_id = team_id team, tm_user_id = member_uid,
             tm_role = Member, joined_at = now\<rparr>)"

definition removeMember :: "uuid option \<Rightarrow> database \<Rightarrow> uuid \<Rightarrow> error + database" where
  "removeMember user db memberId = delete_team_member (session user) db memberId"

section \<open>The desktop client\<close>

text \<open>
  The client of \<^verbatim>\<open>INTEGRATION_GUIDE.md\<close>, which runs with the service-role key. The query of
  \<^verbatim>\<open>pollCommands\<close>:
  \<^verbatim>\<open>.from('commands').select('*').eq('device_id', DEVICE_ID).eq('status', 'pending')
    .order('sent_at', { ascending: true })\<close>
  Rows with the same \<^verbatim>\<open>sent_at\<close> come in the order of the table here; PostgreSQL leaves
  their order open, and no property below depends on it.
\<close>

definition pollCommands_query :: "database \<Rightarrow> uuid \<Rightarrow> command list" where
  "pollCommands_query db DEVICE_ID =
     sort_key sent_at
       (filter (\<lambda>c. device_id c = DEVICE_ID \<and> cmd_status c = Pending) (commands db))"

text \<open>
  \<^verbatim>\<open>executeCommand\<close> marks the command delivered, runs the action for its type, and marks it
  executed with \<^verbatim>\<open>executed_at\<close>; when the action throws, the \<^verbatim>\<open>catch\<close> block marks it
  failed. \<open>ok\<close> says whether the action returned. The results of the updates are not looked
  at. \<open>executeCommand_delivered\<close> is the first update and \<open>executeCommand_finish\<close> the one
  after the action: \<^verbatim>\<open>executeCommand\<close> awaits the action between the two, and the store can
  change meanwhile.
\<close>

definition executeCommand_delivered :: "database \<Rightarrow> command \<Rightarrow> database" where
  "executeCommand_delivered db command =
     outcome db (update_command_status ServiceRole db (cmd_id command) Delivered None)"

definition executeCommand_finish :: "database \<Rightarrow> command \<Rightarrow> bool \<Rightarrow> timestamptz \<Rightarrow> database" where
  "executeCommand_finish db command ok now =
     (if ok
      then outcome db (update_command_status ServiceRole db (cmd_id command) Executed (Some now))
      else outcome db (update_command_status ServiceRole db (cmd_id command) Failed None))"

definition executeCommand :: "database \<Rightarrow> command \<Rightarrow> bool \<Rightarrow> timestamptz \<Rightarrow> database" where
  "executeCommand db command ok now =
     executeCommand_finish (executeCommand_delivered db command) command ok now"

text \<open>
  \<^verbatim>\<open>pollCommands\<close> executes the commands that its query returned, in that order, and then
  reports the device online (\<open>pollCommands_online\<close>). \<open>ok c\<close> says whether the action of
  command \<open>c\<close> returns and \<open>clock c\<close> is the time at which it does. \<open>pollCommands\<close> below is
  a poll during which nothing else writes to the store. The client starts a poll every five
  seconds (\<^verbatim>\<open>setInterval(pollCommands, 5000)\<close>) whether or not the last one has returned, so
  the statements of two polls can alternate, and a poll can execute a command that another
  poll has executed since the query.
\<close>

definition pollCommands_online :: "database \<Rightarrow> uuid \<Rightarrow> timestamptz \<Rightarrow> database" where
  "pollCommands_online db DEVICE_ID now =
     outcome db
       (update_device ServiceRole db DEVICE_ID
          (\<lambda>d. d\<lparr>dev_status := Online, last_seen := Some now\<rparr>))"

definition pollCommands ::
  "database \<Rightarrow> uuid \<Rightarrow> (command \<Rightarrow> bool) \<Rightarrow> (command \<Rightarrow> timestamptz) \<Rightarrow> timestamptz \<Rightarrow> database" where
  "pollCommands db DEVICE_ID ok clock now =
     pollCommands_online
       (foldl (\<lambda>s c. executeCommand s c (ok c) (clock c)) db (pollCommands_query db DEVICE_ID))
       DEVICE_ID now"

section \<open>Reachable states of the store\<close>

datatype dashboard_op =
    SendCommand "uuid option" uuid command_type uuid timestamptz
  | AddDevice "uuid option" string string port_text uuid timestamptz
  | EditDevice "uuid option" device string string port_text
  | DeleteDevice "uuid option" bool uuid
  | CreateTeam "uuid option" string uuid uuid timestamptz
  | DeleteTeam "uuid option" bool uuid
  | AddMember "uuid option" team "uuid option" uuid timestamptz
  | RemoveMember "uuid option" uuid

fun dashboard_step :: "dashboard_op \<Rightarrow> database \<Rightarrow> error + database" where
  "dashboard_step (SendCommand user deviceId commandType new_id now) db =
     sendCommand user db deviceId commandType new_id now"
| "dashboard_step (AddDevice user name ipAddress port_input new_id now) db =
     AddDeviceModal_handleSubmit user db name ipAddress port_input new_id now"
| "dashboard_step (EditDevice user device name ipAddress port_input) db =
     EditDeviceModal_handleSubmit user db device name ipAddress port_input"
| "dashboard_step (DeleteDevice user confirmed deviceId) db =
     deleteDevice user db confirmed deviceId"
| "dashboard_step (CreateTeam user name new_team_id new_member_id now) db =
     CreateTeamModal_handleSubmit user db name new_team_id new_member_id now"
| "dashboard_step (DeleteTeam user confirmed teamId) db = deleteTeam user db confirmed teamId"
| "dashboard_step (AddMember user team userData new_id now) db =
     addMember user db team userData new_id now"
| "dashboard_step (RemoveMember user memberId) db = removeMember user db memberId"

text \<open>
  The states that the store reaches from the empty one through the dashboard and the
  desktop client. A step of the client is one of its statements, on any command and any
  device, so that the statements of polls that overlap come in any order.
\<close>

inductive reachable :: "database \<Rightarrow> bool" where
  start: "reachable empty_db"
| dashboard: "reachable db \<Longrightarrow> dashboard_step op db = Inr db' \<Longrightarrow> reachable db'"
| delivered: "reachable db \<Longrightarrow> reachable (executeCommand_delivered db command)"
| finish: "reachable db \<Longrightarrow> reachable (executeCommand_finish db command ok now)"
| online: "reachable db \<Longrightarrow> reachable (pollCommands_online db DEVICE_ID now)"

section \<open>Notions used in the properties\<close>

definition device_by_id :: "database \<Rightarrow> uuid \<Rightarrow> device option" where
  "device_by_id db did = find (\<lambda>d. dev_id d = did) (devices db)"





text \<open>
  Holding the admin role in the membership relation of a team, as the specification words
  it.
\<close>

definition has_admin_role :: "database \<Rightarrow> uuid \<Rightarrow> uuid \<Rightarrow> bool" where
  "has_admin_role db uid tid =
     (\<exists>m \<in> set (team_members db). tm_team_id m = tid \<and> tm_user_id m = uid \<and> tm_role m = Admin)"

text \<open>The columns of a device other than \<^verbatim>\<open>team_id\<close>.\<close>

definition device_without_team ::
  "device \<Rightarrow> uuid \<times> string \<times> string \<times> int \<times> uuid \<times> device_status \<times> timestamptz option \<times> timestamptz" where
  "device_without_team d =
     (dev_id d, dev_name d, ip_address d, port d, owner_id d, dev_status d, last_seen d,
      dev_created_at d)"

section \<open>Stores for the examples\<close>

text \<open>
  Team 1 was created by user 1, who holds the admin role in it, as does user 2; user 4 is a
  plain member. Device 10 (``Prime'') belongs to user 3 and is assigned to team 1; device 11
  (``VIP'') belongs to user 1 alone. Device 10 has three pending commands, stored out of
  the order of their issue, and one executed command.
\<close>

definition ex_team :: team where
  "ex_team = \<lparr>team_id = 1, team_name = ''DJ Team'', created_by = 1, team_created_at = 0\<rparr>"

definition ex_creator :: team_member where
  "ex_creator = \<lparr>tm_id = 7, tm_team_id = 1, tm_user_id = 1, tm_role = Admin, joined_at = 0\<rparr>"

definition ex_admin :: team_member where
  "ex_admin = \<lparr>tm_id = 5, tm_team_id = 1, tm_user_id = 2, tm_role = Admin, joined_at = 1\<rparr>"

definition ex_member :: team_member where
  "ex_member = \<lparr>tm_id = 6, tm_team_id = 1, tm_user_id = 4, tm_role = Member, joined_at = 1\<rparr>"

definition ex_prime :: device where
  "ex_prime = \<lparr>dev_id = 10, dev_name = ''Prime'', ip_address = ''192.168.1.100'', port = 3000,
               owner_id = 3, dev_team_id = Some 1, dev_status = Online, last_seen = Some 5,
               dev_created_at = 2\<rparr>"

definition ex_vip :: device where
  "ex_vip = \<lparr>dev_id = 11, dev_name = ''VIP'', ip_address = ''192.168.1.101'', port = 3000,
             owner_id = 1, dev_team_id = None, dev_status = Unknown, last_seen = None,
             dev_created_at = 3\<rparr>"

definition ex_command :: "uuid \<Rightarrow> timestamptz \<Rightarrow> command" where
  "ex_command cid t =
     \<lparr>cmd_id = cid, device_id = 10, command_type = Next_track, payload = [],
      cmd_status = Pending, sent_by = 3, sent_at = t, executed_at = None\<rparr>"

definition ex_done :: command where
  "ex_done = \<lparr>cmd_id = 23, device_id = 10, command_type = Unmute_zoom, payload = [],
              cmd_status = Executed, sent_by = 3, sent_at = 5, executed_at = Some 40\<rparr>"

definition ex_db :: database where
  "ex_db = \<lparr>teams = [ex_team], team_members = [ex_creator, ex_admin, ex_member],
            devices = [ex_prime, ex_vip],
            commands = [ex_command 22 30, ex_done, ex_command 20 10, ex_command 21 20]\<rparr>"

text \<open>
  The text of a port field that holds the decimal numeral of \<open>n\<close>, and the text
  \<^verbatim>\<open>0.5e1\<close>.
\<close>

definition numeral_text :: "int \<Rightarrow> port_text" where
  "numeral_text n = \<lparr>valueAsNumber = Integer n, parseInt = Some n\<rparr>"

definition ex_exponent_text :: port_text where
  "ex_exponent_text = \<lparr>valueAsNumber = Integer 5, parseInt = Some 0\<rparr>"

text \<open>
  The store after user 3 registered ``Prime'' at time 2; the same after the desktop client
  reported the device online at time 9; and the same after user 1 then registered ``VIP''
  at time 12.
\<close>

definition ex_registered :: database where
  "ex_registered =
     \<lparr>teams = [], team_members = [],
      devices = [\<lparr>dev_id = 10, dev_name = ''Prime'', ip_address = ''192.168.1.100'',
                  port = 3000, owner_id = 3, dev_team_id = None, dev_status = Unknown,
                  last_seen = None, dev_created_at = 2\<rparr>],
      commands = []\<rparr>"

definition ex_online :: database where
  "ex_online =
     \<lparr>teams = [], team_members = [],
      devices = [\<lparr>dev_id = 10, dev_name = ''Prime'', ip_address = ''192.168.1.100'',
                  port = 3000, owner_id = 3, dev_team_id = None, dev_status = Online,
                  last_seen = Some 9, dev_created_at = 2\<rparr>],
      commands = []\<rparr>"

definition ex_two_devices :: database where
  "ex_two_devices =
     \<lparr>teams = [], team_members = [],
      devices = [\<lparr>dev_id = 10, dev_name = ''Prime'', ip_address = ''192.168.1.100'',
                  port = 3000, owner_id = 3, dev_team_id = None, dev_status = Online,
                  last_seen = Some 9, dev_created_at = 2\<rparr>,
                 \<lparr>dev_id = 11, dev_name = ''VIP'', ip_address = ''192.168.1.101'',
                  port = 3000, owner_id = 1, dev_team_id = None, dev_status = Unknown,
                  last_seen = None, dev_created_at = 12\<rparr>],
      commands = []\<rparr>"

text \<open>
  Stores that hold commands for device 10 of user 3: one pending command; two pending
  commands; and one executed command.
\<close>

definition ex_sent :: database where
  "ex_sent = ex_registered\<lparr>commands := [ex_command 20 7]\<rparr>"



section \<open>Lemmas on lists\<close>

lemma key_unique:
  assumes "distinct (map key xs)" "x \<in> set xs" "y \<in> set xs" "key x = key y"
  shows "x = y"
  using assms by (meson distinct_map inj_onD)



lemma find_append_Some: "find P xs = Some x \<Longrightarrow> find P (xs @ ys) = Some x"
  by (induction xs) (auto split: if_splits)

lemma find_append_None: "find P xs = None \<Longrightarrow> find P (xs @ [y]) = Some z \<Longrightarrow> z = y"
  by (induction xs) (auto split: if_splits)

lemma sort_key_three:
  fixes f :: "'a \<Rightarrow> int"
  assumes m: "mset xs = {#a, b, c#}" and ab: "f a < f b" and bc: "f b < f c"
  shows "sort_key f xs = [a, b, c]"
proof (rule properties_for_sort_key)
  show "mset [a, b, c] = mset xs" using m by simp
  show "sorted (map f [a, b, c])" using ab bc by simp
  fix k assume k: "k \<in> set [a, b, c]"
  have "mset (filter (\<lambda>x. f k = f x) xs) = filter_mset (\<lambda>x. f k = f x) {#a, b, c#}"
    using m by (simp only: mset_filter)
  also have "\<dots> = mset (filter (\<lambda>x. f k = f x) [a, b, c])" by simp
  finally have e: "mset (filter (\<lambda>x. f k = f x) xs) = mset (filter (\<lambda>x. f k = f x) [a, b, c])" .
  have "\<exists>y. filter (\<lambda>x. f k = f x) [a, b, c] = [y]" using k ab bc by auto
  then obtain y where y: "filter (\<lambda>x. f k = f x) [a, b, c] = [y]" by blast
  with e have "mset (filter (\<lambda>x. f k = f x) xs) = {#y#}" by simp
  then have "filter (\<lambda>x. f k = f x) xs = [y]" by (metis mset_single_iff_right)
  with y show "filter (\<lambda>x. f k = f x) [a, b, c] = filter (\<lambda>x. f k = f x) xs" by simp
qed

section \<open>Which statements the policies let run\<close>

lemmas ex_defs = ex_db_def ex_team_def ex_creator_def ex_admin_def ex_member_def ex_prime_def
  ex_vip_def ex_command_def ex_done_def

text \<open>
  Reading \<^verbatim>\<open>team_members\<close> under row-level security always ends in the recursion, because
  the \<^verbatim>\<open>SELECT\<close> policy of that table reads the table again.
\<close>

lemma policy_recursion_Team_members:
  "policy_recursion active Team_members = Some Team_members"
  by (simp add: policy_recursion.simps[of active] policy_recursion.simps[of "Team_members # active"])

lemma policy_recursion_via_Team_members:
  "Teams \<notin> set active \<Longrightarrow> policy_recursion active Teams = Some Team_members"
  "Devices \<notin> set active \<Longrightarrow> policy_recursion active Devices = Some Team_members"
  by (simp_all add: policy_recursion.simps[of active] policy_recursion_Team_members)

text \<open>
  With the session of a signed-in user, every statement of the clients but the insert of a
  device reaches \<^verbatim>\<open>team_members\<close> through its policies and is refused.
\<close>

lemma policy_error_Authenticated:
  "policy_error (Authenticated u) Teams INSERT True = Some (InfiniteRecursion Team_members)"
  "policy_error (Authenticated u) Teams DELETE True = Some (InfiniteRecursion Team_members)"
  "policy_error (Authenticated u) Team_members INSERT False = Some (InfiniteRecursion Team_members)"
  "policy_error (Authenticated u) Team_members DELETE True = Some (InfiniteRecursion Team_members)"
  "policy_error (Authenticated u) Devices UPDATE True = Some (InfiniteRecursion Team_members)"
  "policy_error (Authenticated u) Devices DELETE True = Some (InfiniteRecursion Team_members)"
  "policy_error (Authenticated u) Commands INSERT False = Some (InfiniteRecursion Team_members)"
  "policy_error (Authenticated u) Commands UPDATE True = Some (InfiniteRecursion Team_members)"
  by (simp_all add: policy_error_def policy_recursion_Team_members policy_recursion_via_Team_members)

lemma policy_error_insert_device: "policy_error a Devices INSERT False = None"
  by (cases a) (simp_all add: policy_error_def)

lemma policy_error_others:
  "policy_error Anon r c b = None" "policy_error ServiceRole r c b = None"
  by (simp_all add: policy_error_def)

lemma statements_Authenticated:
  "insert_team (Authenticated u) db t = Inl (InfiniteRecursion Team_members)"
  "insert_team_member (Authenticated u) db m = Inl (InfiniteRecursion Team_members)"
  "delete_team_member (Authenticated u) db mid = Inl (InfiniteRecursion Team_members)"
  "delete_team (Authenticated u) db tid = Inl (InfiniteRecursion Team_members)"
  "update_device (Authenticated u) db did f = Inl (InfiniteRecursion Team_members)"
  "delete_device (Authenticated u) db did = Inl (InfiniteRecursion Team_members)"
  "insert_command (Authenticated u) db c = Inl (InfiniteRecursion Team_members)"
  "update_command_status (Authenticated u) db cid s ex = Inl (InfiniteRecursion Team_members)"
  by (simp_all add: insert_team_def insert_team_member_def delete_team_member_def delete_team_def
        update_device_def delete_device_def insert_command_def update_command_status_def
        policy_error_Authenticated)

text \<open>Without a session no row is visible, so an update or a delete touches nothing.\<close>

lemma statements_Anon:
  "delete_team_member Anon db mid = Inr db"
  "delete_team Anon db tid = Inr db"
  "update_device Anon db did f = Inr db"
  "delete_device Anon db did = Inr db"
  "insert_team_member Anon db m = Inl (RlsViolation ''team_members'')"
  by (simp_all add: delete_team_member_def delete_team_def update_device_def delete_device_def
        insert_team_member_def policy_error_others team_member_delete_target_def
        team_delete_target_def device_update_target_def device_delete_target_def)

section \<open>Lemmas on the statements of the desktop client\<close>

lemma update_command_status_ServiceRole:
  "update_command_status ServiceRole db cid s ex =
     Inr (db\<lparr>commands := map (\<lambda>c. if cmd_id c = cid then set_status s ex c else c)
                              (commands db)\<rparr>)"
  by (simp add: update_command_status_def policy_error_others command_update_target_def)


lemma devices_update_command_status:
  "devices (outcome db (update_command_status ServiceRole db cid s ex)) = devices db"
  by (simp add: update_command_status_ServiceRole outcome_def)






lemma devices_executeCommand_delivered: "devices (executeCommand_delivered db c) = devices db"
  by (simp add: executeCommand_delivered_def devices_update_command_status)

lemma devices_executeCommand_finish: "devices (executeCommand_finish db c ok now) = devices db"
  by (simp add: executeCommand_finish_def devices_update_command_status)









text \<open>Reporting a device online leaves the port of every device as it is.\<close>

lemma ports_pollCommands_online:
  "map port (devices (pollCommands_online db DEVICE_ID now)) = map port (devices db)"
proof -
  let ?f = "\<lambda>d. d\<lparr>dev_status := Online, last_seen := Some now\<rparr>"
  have "map port (map (\<lambda>d. if P d then ?f d else d) ds) = map port ds" for P and ds :: "device list"
    by (induction ds) simp_all
  then show ?thesis
    by (simp add: pollCommands_online_def update_device_def policy_error_others outcome_def)
qed



section \<open>Steps of the dashboard\<close>

lemma outcome_Inr: "r = Inr db' \<Longrightarrow> outcome db r = db'"
  by (simp add: outcome_def)

lemma AddDeviceModal_handleSubmit_Inr:
  assumes "AddDeviceModal_handleSubmit user db name ipAddress port_input new_id now = Inr db'"
  shows "db' = db \<or>
         (\<exists>uid p. user = Some uid \<and> parseInt port_input = Some p \<and> 0 < p \<and> p \<le> 65535 \<and>
            new_id \<notin> set (map dev_id (devices db)) \<and>
            db' = db\<lparr>devices := devices db @
                    [\<lparr>dev_id = new_id, dev_name = name, ip_address = ipAddress, port = p,
                      owner_id = uid, dev_team_id = None, dev_status = Unknown, last_seen = None,
                      dev_created_at = now\<rparr>]\<rparr>)"
  using assms
  by (auto simp: AddDeviceModal_handleSubmit_def insert_device_def policy_error_insert_device
        devices_port_check_def split: option.splits if_splits)

text \<open>
  What a step of the dashboard that the store accepts does: it adds a device, or it leaves
  the store as it is.
\<close>

lemma dashboard_step_Inr:
  assumes "dashboard_step op db = Inr db'"
  shows "db' = db \<or>
         (\<exists>d. db' = db\<lparr>devices := devices db @ [d]\<rparr> \<and> devices_port_check d \<and>
               dev_id d \<notin> set (map dev_id (devices db)) \<and>
               dev_status d = Unknown \<and> last_seen d = None)"
proof (cases op)
  case (SendCommand user deviceId commandType new_id now)
  with assms show ?thesis
    by (cases user) (simp_all add: sendCommand_def statements_Authenticated)
next
  case (AddDevice user name ipAddress port_input new_id now)
  with assms AddDeviceModal_handleSubmit_Inr[of user db name ipAddress port_input new_id now db']
  show ?thesis by (auto simp: devices_port_check_def)
next
  case (EditDevice user device name ipAddress port_input)
  with assms show ?thesis
    by (cases user; cases "parseInt port_input")
       (simp_all add: EditDeviceModal_handleSubmit_def session_def statements_Authenticated
          statements_Anon policy_error_Authenticated policy_error_others
          device_update_target_def)
next
  case (DeleteDevice user confirmed deviceId)
  with assms show ?thesis
    by (cases user; cases confirmed)
       (simp_all add: deleteDevice_def session_def statements_Authenticated statements_Anon)
next
  case (CreateTeam user name new_team_id new_member_id now)
  with assms show ?thesis
    by (cases user) (simp_all add: CreateTeamModal_handleSubmit_def statements_Authenticated)
next
  case (DeleteTeam user confirmed teamId)
  with assms show ?thesis
    by (cases user; cases confirmed)
       (simp_all add: deleteTeam_def session_def statements_Authenticated statements_Anon)
next
  case (AddMember user team userData new_id now)
  with assms show ?thesis
    by (cases user; cases userData)
       (simp_all add: addMember_def session_def statements_Authenticated statements_Anon)
next
  case (RemoveMember user memberId)
  with assms show ?thesis
    by (cases user)
       (simp_all add: removeMember_def session_def statements_Authenticated statements_Anon)
qed


section \<open>Invariants of the reachable states\<close>

lemma ports_checked:
  "(\<forall>d \<in> set ds. devices_port_check d) = (\<forall>p \<in> set (map port ds). 0 < p \<and> p \<le> 65535)"
  by (simp add: devices_port_check_def)

lemma reachable_ports:
  "reachable db \<Longrightarrow> \<forall>d \<in> set (devices db). devices_port_check d"
proof (induction rule: reachable.induct)
  case start
  show ?case by (simp add: empty_db_def)
next
  case (dashboard db op db')
  from dashboard_step_Inr[OF dashboard.hyps(2)] dashboard.IH
  show ?case by auto
next
  case (delivered db command)
  then show ?case by (simp add: devices_executeCommand_delivered)
next
  case (finish db command ok now)
  then show ?case by (simp add: devices_executeCommand_finish)
next
  case (online db DEVICE_ID now)
  from online.IH show ?case
    unfolding ports_checked ports_pollCommands_online .
qed

text \<open>
  A whole run of \<^verbatim>\<open>executeCommand\<close> and of \<^verbatim>\<open>pollCommands\<close> is a sequence of steps of the
  client.
\<close>

lemma reachable_executeCommand: "reachable db \<Longrightarrow> reachable (executeCommand db c ok now)"
  unfolding executeCommand_def by (intro reachable.finish reachable.delivered)

lemma reachable_foldl_executeCommand:
  "reachable db \<Longrightarrow> reachable (foldl (\<lambda>s c. executeCommand s c (ok c) (clock c)) db cs)"
  by (induction cs arbitrary: db) (simp_all add: reachable_executeCommand)

lemma reachable_pollCommands:
  "reachable db \<Longrightarrow> reachable (pollCommands db DEVICE_ID ok clock now)"
  unfolding pollCommands_def
  by (intro reachable.online reachable_foldl_executeCommand)

text \<open>The example run: user 3 registers a device, the client polls, user 1 registers one.\<close>

lemma AddDevice_ex_registered:
  "dashboard_step (AddDevice (Some 3) ''Prime'' ''192.168.1.100'' (numeral_text 3000) 10 2)
     empty_db = Inr ex_registered"
  by (simp add: AddDeviceModal_handleSubmit_def insert_device_def policy_error_insert_device
      empty_db_def ex_registered_def numeral_text_def int4_def
      devices_insert_check_def devices_port_check_def)

lemma pollCommands_ex_online: "pollCommands ex_registered 10 ok clock 9 = ex_online"
  by (simp add: pollCommands_def pollCommands_query_def pollCommands_online_def
       update_device_def policy_error_others device_update_target_def devices_port_check_def
       int4_def outcome_def ex_registered_def ex_online_def)

lemma AddDevice_ex_two_devices:
  "dashboard_step (AddDevice (Some 1) ''VIP'' ''192.168.1.101'' (numeral_text 3000) 11 12)
     ex_online = Inr ex_two_devices"
  by (simp add: AddDeviceModal_handleSubmit_def insert_device_def policy_error_insert_device
      ex_online_def ex_two_devices_def numeral_text_def int4_def
      devices_insert_check_def devices_port_check_def)

lemma reachable_ex_registered: "reachable ex_registered"
  using reachable.dashboard[OF reachable.start AddDevice_ex_registered] .

lemma reachable_ex_two_devices: "reachable ex_two_devices"
proof -
  have "reachable (pollCommands ex_registered 10 (\<lambda>c. True) (\<lambda>c. 8) 9)"
    by (rule reachable_pollCommands) (rule reachable_ex_registered)
  then have "reachable ex_online" by (simp only: pollCommands_ex_online)
  then show ?thesis by (rule reachable.dashboard) (rule AddDevice_ex_two_devices)
qed

section \<open>The lifecycle of a command\<close>




section \<open>The execution timestamp of a command\<close>




section \<open>Issuing commands\<close>

text \<open>
  Claim C3. With the session of a signed-in user the insert of \<^verbatim>\<open>sendCommand\<close> does not
  run: both insert policies of \<^verbatim>\<open>commands\<close> read \<^verbatim>\<open>devices\<close>, whose \<^verbatim>\<open>SELECT\<close> policy reads
  \<^verbatim>\<open>team_members\<close>, whose \<^verbatim>\<open>SELECT\<close> policy reads \<^verbatim>\<open>team_members\<close> again. \<^verbatim>\<open>sendCommand\<close>
  fails with the recursion error for every user and every device, the owner of the device
  and the members of its team included, and the store stays as it is.
\<close>

theorem C3_sendCommand_refused:
  "sendCommand (Some u) db deviceId commandType new_id now
     = Inl (InfiniteRecursion Team_members) \<and>
   outcome db (sendCommand (Some u) db deviceId commandType new_id now) = db"
  by (simp add: sendCommand_def statements_Authenticated outcome_def)

text \<open>
  User 3 owns device 10, the expression of ``Users can send commands to their devices''
  holds of the row that \<^verbatim>\<open>sendCommand\<close> sends, and the request is refused.
\<close>

theorem C3_witness:
  "map (\<lambda>d. (dev_id d, owner_id d)) (devices ex_registered) = [(10, 3)] \<and>
   commands_insert_own ex_registered 3 (sendCommand_row 3 10 Next_track 20 7) \<and>
   sendCommand (Some 3) ex_registered 10 Next_track 20 7 = Inl (InfiniteRecursion Team_members) \<and>
   outcome ex_registered (sendCommand (Some 3) ex_registered 10 Next_track 20 7) = ex_registered"
  using C3_sendCommand_refused[where u = 3 and db = ex_registered and deviceId = 10
      and commandType = Next_track and new_id = 20 and now = 7]
  by (simp add: ex_registered_def sendCommand_row_def commands_insert_own_def outcome_def)

section \<open>Status and last-seen time of a device\<close>

text \<open>
  Claim C4. Let the primary key of the devices be unique. Whatever the dashboard does
  (send a command, add, edit or delete a device, create or delete a team, add or remove
  a member), a device that is in the store before and after has the same status and the
  same last-seen time, and a device that is in the store only after has status unknown and
  no last-seen time.
\<close>

theorem C4_dashboard_leaves_status_and_last_seen:
  assumes "distinct (map dev_id (devices db))" and "dashboard_step op db = Inr db'"
    and "device_by_id db' i = Some d'"
  shows "(device_by_id db i = Some d \<longrightarrow>
            dev_status d' = dev_status d \<and> last_seen d' = last_seen d) \<and>
         (device_by_id db i = None \<longrightarrow> dev_status d' = Unknown \<and> last_seen d' = None)"
proof -
  from dashboard_step_Inr[OF assms(2)] show ?thesis
  proof (elim disjE exE conjE)
    assume "db' = db"
    with assms(3) show ?thesis by simp
  next
    fix x
    assume "db' = db\<lparr>devices := devices db @ [x]\<rparr>"
      and x: "dev_status x = Unknown" "last_seen x = None"
    then have add: "devices db' = devices db @ [x]" by simp
    show ?thesis
    proof (rule conjI; rule impI)
      assume "device_by_id db i = Some d"
      then have "device_by_id db' i = Some d"
        unfolding device_by_id_def add by (rule find_append_Some)
      with assms(3) show "dev_status d' = dev_status d \<and> last_seen d' = last_seen d" by simp
    next
      assume "device_by_id db i = None"
      from this assms(3) have "d' = x"
        unfolding device_by_id_def add by (rule find_append_None)
      then show "dev_status d' = Unknown \<and> last_seen d' = None" by (simp add: x)
    qed
  qed
qed

text \<open>
  Device 10 is online, last seen at time 9, when user 1 registers device 11: device 10
  keeps both values, and device 11 starts with status unknown and no last-seen time.
\<close>

theorem C4_witness:
  "dashboard_step (AddDevice (Some 1) ''VIP'' ''192.168.1.101'' (numeral_text 3000) 11 12)
     ex_online = Inr ex_two_devices \<and>
   map (\<lambda>d. (dev_id d, dev_status d, last_seen d)) (devices ex_online) = [(10, Online, Some 9)] \<and>
   map (\<lambda>d. (dev_id d, dev_status d, last_seen d)) (devices ex_two_devices)
     = [(10, Online, Some 9), (11, Unknown, None)]"
proof -
  let ?d10 = "\<lparr>dev_id = 10, dev_name = ''Prime'', ip_address = ''192.168.1.100'',
                port = 3000, owner_id = 3, dev_team_id = None, dev_status = Online,
                last_seen = Some 9, dev_created_at = 2\<rparr>"
  let ?d11 = "\<lparr>dev_id = 11, dev_name = ''VIP'', ip_address = ''192.168.1.101'',
                port = 3000, owner_id = 1, dev_team_id = None, dev_status = Unknown,
                last_seen = None, dev_created_at = 12\<rparr>"
  have h1: "distinct (map dev_id (devices ex_online))" by (simp add: ex_online_def)
  have h3: "device_by_id ex_two_devices 10 = Some ?d10" "device_by_id ex_two_devices 11 = Some ?d11"
    by (simp_all add: device_by_id_def ex_two_devices_def)
  have h4: "device_by_id ex_online 10 = Some ?d10" "device_by_id ex_online 11 = None"
    by (simp_all add: device_by_id_def ex_online_def)
  show ?thesis
    using C4_dashboard_leaves_status_and_last_seen[OF h1 AddDevice_ex_two_devices h3(1), of ?d10]
      C4_dashboard_leaves_status_and_last_seen[OF h1 AddDevice_ex_two_devices h3(2)]
      AddDevice_ex_two_devices h4
    by (simp add: ex_online_def ex_two_devices_def)
qed

section \<open>Fetching the pending commands\<close>

text \<open>
  Claim C5. The query of \<^verbatim>\<open>pollCommands\<close> returns exactly the commands of the device that
  are pending (as a multiset: each as often as it is stored), in ascending order of
  \<^verbatim>\<open>sent_at\<close>. When these are three commands issued at times \<open>t1 < t2 < t3\<close>, the result is
  these three in that order, however the table stores them.
\<close>

theorem C5_pollCommands_query:
  "mset (pollCommands_query db DEVICE_ID) =
     filter_mset (\<lambda>c. device_id c = DEVICE_ID \<and> cmd_status c = Pending) (mset (commands db)) \<and>
   sorted (map sent_at (pollCommands_query db DEVICE_ID)) \<and>
   (mset (filter (\<lambda>c. device_id c = DEVICE_ID \<and> cmd_status c = Pending) (commands db))
       = {#c1, c2, c3#} \<and> sent_at c1 < sent_at c2 \<and> sent_at c2 < sent_at c3 \<longrightarrow>
    pollCommands_query db DEVICE_ID = [c1, c2, c3])"
proof (intro conjI impI)
  show "mset (pollCommands_query db DEVICE_ID) =
     filter_mset (\<lambda>c. device_id c = DEVICE_ID \<and> cmd_status c = Pending) (mset (commands db))"
    by (simp add: pollCommands_query_def)
  show "sorted (map sent_at (pollCommands_query db DEVICE_ID))"
    by (simp add: pollCommands_query_def)
next
  assume "mset (filter (\<lambda>c. device_id c = DEVICE_ID \<and> cmd_status c = Pending) (commands db))
       = {#c1, c2, c3#} \<and> sent_at c1 < sent_at c2 \<and> sent_at c2 < sent_at c3"
  then show "pollCommands_query db DEVICE_ID = [c1, c2, c3]"
    unfolding pollCommands_query_def by (intro sort_key_three) simp_all
qed

theorem C5_witness:
  "pollCommands_query ex_db 10 = [ex_command 20 10, ex_command 21 20, ex_command 22 30] \<and>
   commands ex_db = [ex_command 22 30, ex_done, ex_command 20 10, ex_command 21 20] \<and>
   sent_at (ex_command 20 10) < sent_at (ex_command 21 20) \<and>
   sent_at (ex_command 21 20) < sent_at (ex_command 22 30)"
proof -
  have h: "mset (filter (\<lambda>c. device_id c = 10 \<and> cmd_status c = Pending) (commands ex_db))
       = {#ex_command 20 10, ex_command 21 20, ex_command 22 30#}"
    by (simp add: ex_defs)
  have t: "sent_at (ex_command 20 10) < sent_at (ex_command 21 20)"
          "sent_at (ex_command 21 20) < sent_at (ex_command 22 30)"
    by (simp_all add: ex_command_def)
  show ?thesis
    using C5_pollCommands_query[where db = ex_db and DEVICE_ID = 10
        and ?c1.0 = "ex_command 20 10" and ?c2.0 = "ex_command 21 20" and ?c3.0 = "ex_command 22 30"]
      h t
    by (simp add: ex_db_def)
qed

section \<open>Deleting a device\<close>

text \<open>
  Claim C6. With the session of a signed-in user the delete of \<^verbatim>\<open>deleteDevice\<close> does not
  run: its \<^verbatim>\<open>WHERE\<close> clause brings in the \<^verbatim>\<open>SELECT\<close> policies of \<^verbatim>\<open>devices\<close>, of which ``Team
  members can view team devices'' reads \<^verbatim>\<open>team_members\<close>, whose \<^verbatim>\<open>SELECT\<close> policy reads
  \<^verbatim>\<open>team_members\<close> again. A confirmed \<^verbatim>\<open>deleteDevice\<close> fails with the recursion error for every
  user and every device, the owner included; no device and no command is deleted.
\<close>

theorem C6_deleteDevice_refused:
  "deleteDevice (Some u) db True deviceId = Inl (InfiniteRecursion Team_members) \<and>
   outcome db (deleteDevice (Some u) db True deviceId) = db"
  by (simp add: deleteDevice_def session_def statements_Authenticated outcome_def)

text \<open>
  User 3 owns device 10, which has one command; the expression of ``Device owners can
  delete their devices'' holds of the device, and the request is refused.
\<close>

theorem C6_witness:
  "map (\<lambda>d. (dev_id d, owner_id d)) (devices ex_sent) = [(10, 3)] \<and>
   map (\<lambda>c. (cmd_id c, device_id c)) (commands ex_sent) = [(20, 10)] \<and>
   devices_delete_using 3 (hd (devices ex_sent)) \<and>
   deleteDevice (Some 3) ex_sent True 10 = Inl (InfiniteRecursion Team_members) \<and>
   outcome ex_sent (deleteDevice (Some 3) ex_sent True 10) = ex_sent"
  using C6_deleteDevice_refused[where u = 3 and db = ex_sent and deviceId = 10]
  by (simp add: ex_sent_def ex_registered_def ex_command_def devices_delete_using_def outcome_def)

section \<open>The port of a device\<close>

text \<open>
  Claim C7. Every device of a store that the dashboard and the desktop client can reach
  from the empty store has a port between 1 and 65535. Registering a device with a port
  outside that range fails and leaves the store as it is: \<^verbatim>\<open>handleSubmit\<close> gets from the
  store the violation of the \<^verbatim>\<open>CHECK\<close> constraint on \<^verbatim>\<open>port\<close> when the port fits the column,
  and ``out of range for type integer'' when it does not. Before that, the form refuses a
  port field whose number is outside the range.
\<close>

theorem C7_port_range:
  "(reachable db \<and> d \<in> set (devices db) \<longrightarrow> 1 \<le> port d \<and> port d \<le> 65535) \<and>
   (parseInt port_input = Some p \<and> (p < 1 \<or> 65535 < p) \<longrightarrow>
      AddDeviceModal_handleSubmit (Some u) db name ipAddress port_input new_id now
        = Inl (if int4 p then CheckViolation ''devices_port_check''
               else NumericValueOutOfRange ''integer'') \<and>
      isl (AddDeviceModal_handleSubmit (Some u) db name ipAddress port_input new_id now) \<and>
      outcome db (AddDeviceModal_handleSubmit (Some u) db name ipAddress port_input new_id now)
        = db) \<and>
   (valueAsNumber port_input = Integer n \<and> (n < 1 \<or> 65535 < n) \<longrightarrow>
      (\<exists>fs. AddDeviceModal_submit user db name ipAddress port_input new_id now
               = Inl (ConstraintValidation fs) \<and> Port_field \<in> set fs))"
proof (intro conjI impI)
  assume "reachable db \<and> d \<in> set (devices db)"
  then have "devices_port_check d" using reachable_ports by blast
  then show "1 \<le> port d" and "port d \<le> 65535" by (simp_all add: devices_port_check_def)
next
  assume p: "parseInt port_input = Some p \<and> (p < 1 \<or> 65535 < p)"
  then show h: "AddDeviceModal_handleSubmit (Some u) db name ipAddress port_input new_id now
        = Inl (if int4 p then CheckViolation ''devices_port_check''
               else NumericValueOutOfRange ''integer'')"
    by (auto simp: AddDeviceModal_handleSubmit_def insert_device_def policy_error_insert_device
          devices_insert_check_def devices_port_check_def)
  then show "isl (AddDeviceModal_handleSubmit (Some u) db name ipAddress port_input new_id now)"
    by simp
  from h show "outcome db
      (AddDeviceModal_handleSubmit (Some u) db name ipAddress port_input new_id now) = db"
    by (simp add: outcome_def)
next
  assume "valueAsNumber port_input = Integer n \<and> (n < 1 \<or> 65535 < n)"
  then have "Port_field \<in> set (invalid_fields name ipAddress port_input)"
    by (auto simp: invalid_fields_def)
  then show "\<exists>fs. AddDeviceModal_submit user db name ipAddress port_input new_id now
               = Inl (ConstraintValidation fs) \<and> Port_field \<in> set fs"
    by (intro exI[of _ "invalid_fields name ipAddress port_input"])
       (auto simp: AddDeviceModal_submit_def)
qed

text \<open>
  Ports 0 and 65536 violate the constraint and port 2147483648 does not fit the column.
  The form refuses the texts \<^verbatim>\<open>0\<close> and \<^verbatim>\<open>65536\<close>; it accepts the text \<^verbatim>\<open>0.5e1\<close>, of which
  \<^verbatim>\<open>handleSubmit\<close> sends the port 0, and the store refuses that.
\<close>

theorem C7_witness:
  "reachable ex_two_devices \<and> map port (devices ex_two_devices) = [3000, 3000] \<and>
   AddDeviceModal_handleSubmit (Some 3) empty_db ''Prime'' ''192.168.1.100'' (numeral_text 0) 10 2
     = Inl (CheckViolation ''devices_port_check'') \<and>
   AddDeviceModal_handleSubmit (Some 3) empty_db ''Prime'' ''192.168.1.100'' (numeral_text 65536)
       10 2
     = Inl (CheckViolation ''devices_port_check'') \<and>
   AddDeviceModal_handleSubmit (Some 3) empty_db ''Prime'' ''192.168.1.100''
       (numeral_text 2147483648) 10 2
     = Inl (NumericValueOutOfRange ''integer'') \<and>
   AddDeviceModal_submit (Some 3) empty_db ''Prime'' ''192.168.1.100'' (numeral_text 0) 10 2
     = Inl (ConstraintValidation [Port_field]) \<and>
   AddDeviceModal_submit (Some 3) empty_db ''Prime'' ''192.168.1.100'' (numeral_text 65536) 10 2
     = Inl (ConstraintValidation [Port_field]) \<and>
   AddDeviceModal_submit (Some 3) empty_db ''Prime'' ''192.168.1.100'' ex_exponent_text 10 2
     = Inl (CheckViolation ''devices_port_check'')"
proof -
  let ?d = "\<lparr>dev_id = 11, dev_name = ''VIP'', ip_address = ''192.168.1.101'',
                port = 3000, owner_id = 1, dev_team_id = None, dev_status = Unknown,
                last_seen = None, dev_created_at = 12\<rparr>"
  have m: "?d \<in> set (devices ex_two_devices)" by (simp add: ex_two_devices_def)
  have f: "AddDeviceModal_submit (Some 3) empty_db ''Prime'' ''192.168.1.100'' (numeral_text 0) 10 2
     = Inl (ConstraintValidation [Port_field])"
    "AddDeviceModal_submit (Some 3) empty_db ''Prime'' ''192.168.1.100'' (numeral_text 65536) 10 2
     = Inl (ConstraintValidation [Port_field])"
    by (simp_all add: AddDeviceModal_submit_def invalid_fields_def numeral_text_def)
  have g: "AddDeviceModal_submit (Some 3) empty_db ''Prime'' ''192.168.1.100'' ex_exponent_text 10 2
     = AddDeviceModal_handleSubmit (Some 3) empty_db ''Prime'' ''192.168.1.100'' ex_exponent_text
         10 2"
    by (simp add: AddDeviceModal_submit_def invalid_fields_def ex_exponent_text_def)
  have v: "parseInt (numeral_text 0) = Some 0" "parseInt (numeral_text 65536) = Some 65536"
    "parseInt (numeral_text 2147483648) = Some 2147483648" "parseInt ex_exponent_text = Some 0"
    "valueAsNumber (numeral_text 0) = Integer 0"
    "valueAsNumber (numeral_text 65536) = Integer 65536"
    "int4 0" "int4 65536" "\<not> int4 2147483648"
    by (simp_all add: numeral_text_def ex_exponent_text_def int4_def)
  show ?thesis
    using C7_port_range[where db = ex_two_devices and d = ?d]
      C7_port_range[where db = empty_db and port_input = "numeral_text 0" and p = 0 and n = 0
        and u = 3 and user = "Some 3" and name = "''Prime''" and ipAddress = "''192.168.1.100''"
        and new_id = 10 and now = 2]
      C7_port_range[where db = empty_db and port_input = "numeral_text 65536" and p = 65536
        and n = 65536 and u = 3 and user = "Some 3" and name = "''Prime''"
        and ipAddress = "''192.168.1.100''" and new_id = 10 and now = 2]
      C7_port_range[where db = empty_db and port_input = "numeral_text 2147483648"
        and p = 2147483648 and u = 3 and name = "''Prime''"
        and ipAddress = "''192.168.1.100''" and new_id = 10 and now = 2]
      C7_port_range[where db = empty_db and port_input = ex_exponent_text and p = 0
        and u = 3 and name = "''Prime''" and ipAddress = "''192.168.1.100''" and new_id = 10
        and now = 2]
      reachable_ex_two_devices m f g v
    by (simp add: ex_two_devices_def)
qed

section \<open>Registering a device\<close>

text \<open>
  Claim C8. Submitting the Add Device form with an empty name or an empty address is
  refused by the validation of the \<^verbatim>\<open>required\<close> inputs, with the empty fields among the
  invalid ones, and the store stays as it is (\<^verbatim>\<open>handleSubmit\<close> and the store themselves
  do not look at the two strings). A submission that succeeds appends one device: status
  unknown, no team, no last-seen time, owned by the signed-in user.
\<close>

theorem C8_AddDeviceModal_validation:
  "(name = [] \<or> ipAddress = [] \<longrightarrow>
      (\<exists>fs. AddDeviceModal_submit user db name ipAddress port_input new_id now
               = Inl (ConstraintValidation fs) \<and>
            (name = [] \<longrightarrow> Name_field \<in> set fs) \<and>
            (ipAddress = [] \<longrightarrow> Ip_address_field \<in> set fs)) \<and>
      outcome db (AddDeviceModal_submit user db name ipAddress port_input new_id now) = db) \<and>
   (AddDeviceModal_submit (Some u) db name ipAddress port_input new_id now = Inr db' \<longrightarrow>
      (\<exists>p. parseInt port_input = Some p \<and>
           db' = db\<lparr>devices := devices db @
                   [\<lparr>dev_id = new_id, dev_name = name, ip_address = ipAddress, port = p,
                     owner_id = u, dev_team_id = None, dev_status = Unknown, last_seen = None,
                     dev_created_at = now\<rparr>]\<rparr>))"
proof (intro conjI impI)
  assume e: "name = [] \<or> ipAddress = []"
  then have ne: "invalid_fields name ipAddress port_input \<noteq> []"
    by (auto simp: invalid_fields_def)
  then show "outcome db (AddDeviceModal_submit user db name ipAddress port_input new_id now) = db"
    by (simp add: AddDeviceModal_submit_def outcome_def)
  show "\<exists>fs. AddDeviceModal_submit user db name ipAddress port_input new_id now
               = Inl (ConstraintValidation fs) \<and>
            (name = [] \<longrightarrow> Name_field \<in> set fs) \<and>
            (ipAddress = [] \<longrightarrow> Ip_address_field \<in> set fs)"
    using ne by (intro exI[of _ "invalid_fields name ipAddress port_input"])
                (auto simp: AddDeviceModal_submit_def invalid_fields_def)
next
  assume "AddDeviceModal_submit (Some u) db name ipAddress port_input new_id now = Inr db'"
  then show "\<exists>p. parseInt port_input = Some p \<and>
           db' = db\<lparr>devices := devices db @
                   [\<lparr>dev_id = new_id, dev_name = name, ip_address = ipAddress, port = p,
                     owner_id = u, dev_team_id = None, dev_status = Unknown, last_seen = None,
                     dev_created_at = now\<rparr>]\<rparr>"
    by (auto simp: AddDeviceModal_submit_def AddDeviceModal_handleSubmit_def insert_device_def
          policy_error_insert_device split: if_splits option.splits)
qed

theorem C8_witness:
  "AddDeviceModal_submit (Some 3) empty_db [] ''192.168.1.100'' (numeral_text 3000) 10 2
     = Inl (ConstraintValidation [Name_field]) \<and>
   AddDeviceModal_submit (Some 3) empty_db ''Prime'' [] (numeral_text 3000) 10 2
     = Inl (ConstraintValidation [Ip_address_field]) \<and>
   AddDeviceModal_submit (Some 3) empty_db ''Prime'' ''192.168.1.100'' (numeral_text 3000) 10 2
     = Inr ex_registered \<and>
   map dev_status (devices ex_registered) = [Unknown] \<and>
   map dev_team_id (devices ex_registered) = [None] \<and>
   map last_seen (devices ex_registered) = [None]"
proof -
  have a: "AddDeviceModal_submit (Some 3) empty_db [] ''192.168.1.100'' (numeral_text 3000) 10 2
     = Inl (ConstraintValidation [Name_field])"
    "AddDeviceModal_submit (Some 3) empty_db ''Prime'' [] (numeral_text 3000) 10 2
     = Inl (ConstraintValidation [Ip_address_field])"
    by (simp_all add: AddDeviceModal_submit_def invalid_fields_def numeral_text_def)
  have b: "AddDeviceModal_submit (Some 3) empty_db ''Prime'' ''192.168.1.100'' (numeral_text 3000)
             10 2 = Inr ex_registered"
    by (simp add: AddDeviceModal_submit_def invalid_fields_def AddDeviceModal_handleSubmit_def
          insert_device_def policy_error_insert_device devices_insert_check_def
          devices_port_check_def int4_def numeral_text_def empty_db_def ex_registered_def)
  show ?thesis
    using C8_AddDeviceModal_validation[where name = "[]" and ipAddress = "''192.168.1.100''"
        and user = "Some 3" and db = empty_db and port_input = "numeral_text 3000" and new_id = 10
        and now = 2]
      C8_AddDeviceModal_validation[where name = "''Prime''" and ipAddress = "''192.168.1.100''"
        and u = 3 and db = empty_db and port_input = "numeral_text 3000" and new_id = 10
        and now = 2 and db' = ex_registered] a b
    by (simp add: ex_registered_def empty_db_def)
qed

section \<open>Who may update and delete a device\<close>

text \<open>
  Claim C9. With the session of a signed-in user neither the update of the Edit form nor
  the delete of a device runs: the policy ``Team admins can update team devices'' reads
  \<^verbatim>\<open>teams\<close>, whose \<^verbatim>\<open>SELECT\<close> policy reads \<^verbatim>\<open>team_members\<close>, and the \<^verbatim>\<open>WHERE\<close> clause of either
  statement brings in the \<^verbatim>\<open>SELECT\<close> policies of \<^verbatim>\<open>devices\<close>, which read \<^verbatim>\<open>team_members\<close> too;
  the \<^verbatim>\<open>SELECT\<close> policy of \<^verbatim>\<open>team_members\<close> reads \<^verbatim>\<open>team_members\<close> again. Both requests fail
  with the recursion error for every user and every device: no admin of the device's team,
  not the creator of the team and not the owner of the device can update the device, and
  the owner cannot delete it.
\<close>

theorem C9_device_update_and_delete_refused:
  "EditDeviceModal_handleSubmit (Some u) db device name ipAddress port_input
     = Inl (InfiniteRecursion Team_members) \<and>
   update_device (Authenticated u) db did f = Inl (InfiniteRecursion Team_members) \<and>
   delete_device (Authenticated u) db did = Inl (InfiniteRecursion Team_members)"
  by (cases "parseInt port_input")
     (simp_all add: EditDeviceModal_handleSubmit_def session_def statements_Authenticated
        policy_error_Authenticated)

text \<open>
  Device 10 belongs to user 3 and is assigned to team 1. User 1 created the team and holds
  the admin role in it; user 2 holds the admin role and did not create the team, so that
  the expression of ``Team admins can update team devices'' holds for user 1 and not for
  user 2. The Edit form of any of the three is refused, and so is the owner's delete.
\<close>

theorem C9_witness:
  "device_by_id ex_db 10 = Some ex_prime \<and> dev_team_id ex_prime = Some 1 \<and>
   owner_id ex_prime = 3 \<and>
   has_admin_role ex_db 1 1 \<and> devices_update_team_admin ex_db 1 ex_prime \<and>
   has_admin_role ex_db 2 1 \<and> \<not> devices_update_team_admin ex_db 2 ex_prime \<and>
   EditDeviceModal_handleSubmit (Some 1) ex_db ex_prime ''Prime 2'' ''10.0.0.1'' (numeral_text 8080)
     = Inl (InfiniteRecursion Team_members) \<and>
   EditDeviceModal_handleSubmit (Some 2) ex_db ex_prime ''Prime 2'' ''10.0.0.1'' (numeral_text 8080)
     = Inl (InfiniteRecursion Team_members) \<and>
   EditDeviceModal_handleSubmit (Some 3) ex_db ex_prime ''Prime 2'' ''10.0.0.1'' (numeral_text 8080)
     = Inl (InfiniteRecursion Team_members) \<and>
   delete_device (Authenticated 3) ex_db 10 = Inl (InfiniteRecursion Team_members)"
  using C9_device_update_and_delete_refused[where u = 1 and db = ex_db and device = ex_prime
      and name = "''Prime 2''" and ipAddress = "''10.0.0.1''" and port_input = "numeral_text 8080"]
    C9_device_update_and_delete_refused[where u = 2 and db = ex_db and device = ex_prime
      and name = "''Prime 2''" and ipAddress = "''10.0.0.1''" and port_input = "numeral_text 8080"]
    C9_device_update_and_delete_refused[where u = 3 and db = ex_db and device = ex_prime
      and name = "''Prime 2''" and ipAddress = "''10.0.0.1''" and port_input = "numeral_text 8080"
      and did = 10]
  by (simp add: device_by_id_def has_admin_role_def devices_update_team_admin_def
        is_team_creator_def ex_defs)

section \<open>Deleting a team\<close>

text \<open>
  Claim C10. \<^verbatim>\<open>deleteTeam\<close> never deletes a device or a command: whoever calls it, the
  table of devices keeps its rows with all columns other than \<^verbatim>\<open>team_id\<close>, and the table
  of commands is unchanged. Whenever a delete on \<^verbatim>\<open>teams\<close> removes a team, every device
  that referenced the team has \<^verbatim>\<open>team_id\<close> null afterwards, every other device keeps its
  \<^verbatim>\<open>team_id\<close>, and no other column of a device and no command changes; sent with the
  service-role key, the delete removes the team addressed.
\<close>

theorem C10_deleteTeam:
  "map device_without_team (devices (outcome db (deleteTeam user db confirmed teamId)))
     = map device_without_team (devices db) \<and>
   commands (outcome db (deleteTeam user db confirmed teamId)) = commands db \<and>
   (delete_team a db tid = Inr db' \<and> t \<in> set (teams db) \<and> t \<notin> set (teams db') \<longrightarrow>
      devices db' = map (\<lambda>d. if dev_team_id d = Some (team_id t)
                              then d\<lparr>dev_team_id := None\<rparr> else d) (devices db) \<and>
      map dev_team_id (devices db') =
        map (\<lambda>d. if dev_team_id d = Some (team_id t) then None else dev_team_id d)
            (devices db) \<and>
      map device_without_team (devices db') = map device_without_team (devices db) \<and>
      commands db' = commands db) \<and>
   (t \<in> set (teams db) \<longrightarrow>
      (\<exists>db'. delete_team ServiceRole db (team_id t) = Inr db' \<and> t \<notin> set (teams db')))"
proof (intro conjI impI)
  have c: "deleteTeam user db confirmed teamId = Inr db \<or>
           isl (deleteTeam user db confirmed teamId)"
    by (cases user; cases confirmed)
       (simp_all add: deleteTeam_def session_def statements_Authenticated statements_Anon)
  then show "map device_without_team (devices (outcome db (deleteTeam user db confirmed teamId)))
     = map device_without_team (devices db)"
    by (cases "deleteTeam user db confirmed teamId") (auto simp: outcome_def)
  from c show "commands (outcome db (deleteTeam user db confirmed teamId)) = commands db"
    by (cases "deleteTeam user db confirmed teamId") (auto simp: outcome_def)
next
  assume a: "delete_team a db tid = Inr db' \<and> t \<in> set (teams db) \<and> t \<notin> set (teams db')"
  let ?f = "\<lambda>d. if dev_team_id d = Some tid then d\<lparr>dev_team_id := None\<rparr> else d"
  from a have r: "db' = db\<lparr>teams := filter (\<lambda>t. \<not> team_delete_target a db tid t) (teams db),
                       team_members := filter (\<lambda>m. tm_team_id m \<noteq> tid) (team_members db),
                       devices := map ?f (devices db)\<rparr>"
    by (auto simp: delete_team_def split: option.splits if_splits)
  with a have "team_delete_target a db tid t" by auto
  then have tid: "tid = team_id t" by (simp add: team_delete_target_def)
  from r show "devices db' = map (\<lambda>d. if dev_team_id d = Some (team_id t)
                              then d\<lparr>dev_team_id := None\<rparr> else d) (devices db)"
    by (simp add: tid)
  from r show "map dev_team_id (devices db') =
        map (\<lambda>d. if dev_team_id d = Some (team_id t) then None else dev_team_id d)
            (devices db)"
    by (simp add: tid comp_def cong: if_cong)
  from r show "map device_without_team (devices db') = map device_without_team (devices db)"
    by (simp add: comp_def device_without_team_def cong: if_cong)
  from r show "commands db' = commands db" by simp
next
  assume t: "t \<in> set (teams db)"
  let ?db' = "db\<lparr>teams := filter (\<lambda>x. \<not> team_delete_target ServiceRole db (team_id t) x)
                            (teams db),
                  team_members := filter (\<lambda>m. tm_team_id m \<noteq> team_id t) (team_members db),
                  devices := map (\<lambda>d. if dev_team_id d = Some (team_id t)
                                       then d\<lparr>dev_team_id := None\<rparr> else d) (devices db)\<rparr>"
  have tgt: "team_delete_target ServiceRole db (team_id t) t"
    by (simp add: team_delete_target_def)
  with t have "\<exists>x \<in> set (teams db). team_delete_target ServiceRole db (team_id t) x" by blast
  then have "delete_team ServiceRole db (team_id t) = Inr ?db'"
    by (simp add: delete_team_def policy_error_others)
  moreover have "t \<notin> set (teams ?db')" using tgt by simp
  ultimately show "\<exists>db'. delete_team ServiceRole db (team_id t) = Inr db' \<and> t \<notin> set (teams db')"
    by blast
qed

text \<open>
  Team 1, to which device 10 is assigned, is deleted with the service-role key: the team
  and its memberships are gone, device 10 has no team and is otherwise as before, device 11
  and the commands are as before.
\<close>

theorem C10_witness:
  "teams ex_db = [ex_team] \<and> team_id ex_team = 1 \<and>
   map dev_team_id (devices ex_db) = [Some 1, None] \<and>
   delete_team ServiceRole ex_db 1
     = Inr \<lparr>teams = [], team_members = [],
            devices = [ex_prime\<lparr>dev_team_id := None\<rparr>, ex_vip], commands = commands ex_db\<rparr> \<and>
   map device_without_team [ex_prime\<lparr>dev_team_id := None\<rparr>, ex_vip]
     = map device_without_team (devices ex_db) \<and>
   commands (outcome ex_db (deleteTeam (Some 1) ex_db True 1)) = commands ex_db"
proof -
  let ?db' = "\<lparr>teams = [], team_members = [],
            devices = [ex_prime\<lparr>dev_team_id := None\<rparr>, ex_vip], commands = commands ex_db\<rparr>"
  have h: "ex_team \<in> set (teams ex_db)" "team_id ex_team = 1" "ex_team \<notin> set (teams ?db')"
    "teams ex_db = [ex_team]" "map dev_team_id (devices ex_db) = [Some 1, None]"
    by (simp_all add: ex_defs)
  have v: "delete_team ServiceRole ex_db 1 = Inr ?db'"
    by (simp add: delete_team_def policy_error_others team_delete_target_def ex_defs)
  show ?thesis
    using C10_deleteTeam[where db = ex_db and t = ex_team and a = ServiceRole and tid = 1
        and db' = ?db' and user = "Some 1" and confirmed = True and teamId = 1] h v
    by (simp add: ex_db_def)
qed

end
